theory Spec2Isabelle
  imports Main "HOL-Library.Word" "HOL-Library.Signed_Division"
begin

unbundle bit_operations_syntax

section \<open>Machine types of the AVR target\<close>

text \<open>
  EEPROM.h is compiled by avr-gcc: \<open>uint8_t\<close> is 8 bits wide, \<open>int\<close> and
  \<open>uint16_t\<close> are 16 bits wide, and a data pointer is 16 bits wide, so the cast
  \<open>(uint8_t*) index\<close> keeps the 16 bits of \<open>index\<close>.  Arithmetic on \<open>int\<close> is
  modelled on \<open>16 word\<close>: two's complement with the wrap-around written into the type.
\<close>

type_synonym uint8 = "8 word"
type_synonym int16 = "16 word"

text \<open>
  Integer promotion: every \<open>uint8_t\<close> operand of a binary operator is first widened to
  \<open>int\<close>; the \<open>int\<close> result is narrowed again when it is passed to a \<open>uint8_t\<close>
  parameter.
\<close>

definition promote :: "uint8 \<Rightarrow> int16" where
  "promote x = ucast x"

definition narrow :: "int16 \<Rightarrow> uint8" where
  "narrow x = ucast x"

section \<open>The hardware primitives\<close>

text \<open>
  The device as the cell operations see it: a store of bytes indexed by the 16-bit
  address, and the trace of the calls of the two primitives, in the order in which they
  were made.  The trace is the hook on which physical reads and writes are counted.
\<close>

datatype event = ReadByte int16 | WriteByte int16 uint8

record eeprom =
  cells :: "int16 \<Rightarrow> uint8"
  trace :: "event list"

text \<open>
  Modelled from the spec: \<open>eeprom_read_byte\<close> is declared in \<open>avr/eeprom.h\<close>, which is
  not part of the repository.  The spec describes it as \<open>readByte(address) -> byte\<close>,
  which never fails observably: it returns the byte of the cell and is recorded in the
  trace.
\<close>

definition eeprom_read_byte :: "int16 \<Rightarrow> eeprom \<Rightarrow> uint8 \<times> eeprom" where
  "eeprom_read_byte p s = (cells s p, s\<lparr>trace := trace s @ [ReadByte p]\<rparr>)"

text \<open>
  Modelled from the spec: \<open>eeprom_write_byte\<close> is declared in \<open>avr/eeprom.h\<close>, which is
  not part of the repository.  The spec describes it as \<open>writeByte(address, byte)\<close>,
  which returns nothing: it stores the byte in the cell and is recorded in the trace.
\<close>

definition eeprom_write_byte :: "int16 \<Rightarrow> uint8 \<Rightarrow> eeprom \<Rightarrow> eeprom" where
  "eeprom_write_byte p v s =
     s\<lparr>cells := (cells s)(p := v), trace := trace s @ [WriteByte p v]\<rparr>"

text \<open>The physical writes of a trace, and their number.\<close>

fun is_write :: "event \<Rightarrow> bool" where
  "is_write (WriteByte p v) = True"
| "is_write (ReadByte p) = False"

definition writes :: "eeprom \<Rightarrow> event list" where
  "writes s = filter is_write (trace s)"

definition write_count :: "eeprom \<Rightarrow> nat" where
  "write_count s = length (writes s)"

text \<open>An erased device: every cell reads \<open>0xFF\<close>, nothing has been accessed yet.\<close>

definition erased :: eeprom where
  "erased = \<lparr>cells = (\<lambda>p. 255), trace = []\<rparr>"

section \<open>EERef\<close>

datatype EERef = EERef (ref_index: int16)

text \<open>\<open>uint8_t operator*() const\<close> and \<open>operator const uint8_t() const\<close>.\<close>

definition EERef_deref :: "EERef \<Rightarrow> eeprom \<Rightarrow> uint8 \<times> eeprom" where
  "EERef_deref r s = eeprom_read_byte (ref_index r) s"

definition EERef_uint8 :: "EERef \<Rightarrow> eeprom \<Rightarrow> uint8 \<times> eeprom" where
  "EERef_uint8 r s = EERef_deref r s"

text \<open>\<open>EERef &operator=( uint8_t in )\<close>: the write, then \<open>*this\<close>.\<close>

definition EERef_assign :: "EERef \<Rightarrow> uint8 \<Rightarrow> eeprom \<Rightarrow> EERef \<times> eeprom" where
  "EERef_assign r v s = (r, eeprom_write_byte (ref_index r) v s)"

text \<open>\<open>EERef &operator=( const EERef &ref ) { return *this = *ref; }\<close>\<close>

definition EERef_assign_ref :: "EERef \<Rightarrow> EERef \<Rightarrow> eeprom \<Rightarrow> EERef \<times> eeprom" where
  "EERef_assign_ref r src s =
     (let (v, s1) = EERef_deref src s in EERef_assign r v s1)"

text \<open>
  The compound assignments \<open>return *this = **this op in\<close>.  Both operands are promoted
  to \<open>int\<close>, the operator works on \<open>int\<close>, and the result is narrowed by the call of
  \<open>operator=( uint8_t )\<close>.
\<close>

definition EERef_add_assign :: "EERef \<Rightarrow> uint8 \<Rightarrow> eeprom \<Rightarrow> EERef \<times> eeprom" where
  "EERef_add_assign r n s =
     (let (x, s1) = EERef_deref r s in EERef_assign r (narrow (promote x + promote n)) s1)"

definition EERef_sub_assign :: "EERef \<Rightarrow> uint8 \<Rightarrow> eeprom \<Rightarrow> EERef \<times> eeprom" where
  "EERef_sub_assign r n s =
     (let (x, s1) = EERef_deref r s in EERef_assign r (narrow (promote x - promote n)) s1)"

definition EERef_mul_assign :: "EERef \<Rightarrow> uint8 \<Rightarrow> eeprom \<Rightarrow> EERef \<times> eeprom" where
  "EERef_mul_assign r n s =
     (let (x, s1) = EERef_deref r s in EERef_assign r (narrow (promote x * promote n)) s1)"

definition EERef_xor_assign :: "EERef \<Rightarrow> uint8 \<Rightarrow> eeprom \<Rightarrow> EERef \<times> eeprom" where
  "EERef_xor_assign r n s =
     (let (x, s1) = EERef_deref r s in EERef_assign r (narrow (promote x XOR promote n)) s1)"

definition EERef_and_assign :: "EERef \<Rightarrow> uint8 \<Rightarrow> eeprom \<Rightarrow> EERef \<times> eeprom" where
  "EERef_and_assign r n s =
     (let (x, s1) = EERef_deref r s in EERef_assign r (narrow (promote x AND promote n)) s1)"

definition EERef_or_assign :: "EERef \<Rightarrow> uint8 \<Rightarrow> eeprom \<Rightarrow> EERef \<times> eeprom" where
  "EERef_or_assign r n s =
     (let (x, s1) = EERef_deref r s in EERef_assign r (narrow (promote x OR promote n)) s1)"

text \<open>
  The shifts work on the promoted left operand; the count is the promoted right operand.
  The promoted left operand is never negative, so \<open>>>\<close> is a logical shift.
\<close>

definition EERef_shl_assign :: "EERef \<Rightarrow> uint8 \<Rightarrow> eeprom \<Rightarrow> EERef \<times> eeprom" where
  "EERef_shl_assign r n s =
     (let (x, s1) = EERef_deref r s
      in EERef_assign r (narrow (push_bit (unat (promote n)) (promote x))) s1)"

definition EERef_shr_assign :: "EERef \<Rightarrow> uint8 \<Rightarrow> eeprom \<Rightarrow> EERef \<times> eeprom" where
  "EERef_shr_assign r n s =
     (let (x, s1) = EERef_deref r s
      in EERef_assign r (narrow (drop_bit (unat (promote n)) (promote x))) s1)"

text \<open>
  \<open>/\<close> and \<open>%\<close> on \<open>int\<close> truncate towards zero.  A zero divisor is undefined
  behaviour in C++; the source does not test for it, so the model returns the value
  \<open>DivisionByZero\<close> in its place and no state.
\<close>

datatype undefined_behaviour = DivisionByZero

definition int_div :: "int16 \<Rightarrow> int16 \<Rightarrow> undefined_behaviour + int16" where
  "int_div a b = (if b = 0 then Inl DivisionByZero else Inr (word_of_int (sint a sdiv sint b)))"

definition int_mod :: "int16 \<Rightarrow> int16 \<Rightarrow> undefined_behaviour + int16" where
  "int_mod a b = (if b = 0 then Inl DivisionByZero else Inr (word_of_int (sint a smod sint b)))"

definition EERef_div_assign ::
  "EERef \<Rightarrow> uint8 \<Rightarrow> eeprom \<Rightarrow> undefined_behaviour + EERef \<times> eeprom" where
  "EERef_div_assign r n s =
     (let (x, s1) = EERef_deref r s
      in case int_div (promote x) (promote n) of
           Inl e \<Rightarrow> Inl e
         | Inr q \<Rightarrow> Inr (EERef_assign r (narrow q) s1))"

definition EERef_mod_assign ::
  "EERef \<Rightarrow> uint8 \<Rightarrow> eeprom \<Rightarrow> undefined_behaviour + EERef \<times> eeprom" where
  "EERef_mod_assign r n s =
     (let (x, s1) = EERef_deref r s
      in case int_mod (promote x) (promote n) of
           Inl e \<Rightarrow> Inl e
         | Inr q \<Rightarrow> Inr (EERef_assign r (narrow q) s1))"

text \<open>
  \<open>EERef &update( uint8_t in ) { return in != *this ? *this = in : *this; }\<close>:
  the comparison converts \<open>*this\<close> to \<open>uint8_t\<close>, which is one read.
\<close>

definition EERef_update :: "EERef \<Rightarrow> uint8 \<Rightarrow> eeprom \<Rightarrow> EERef \<times> eeprom" where
  "EERef_update r v s =
     (let (x, s1) = EERef_uint8 r s
      in if promote v \<noteq> promote x then EERef_assign r v s1 else (r, s1))"

text \<open>Prefix and postfix increment and decrement.\<close>

definition EERef_pre_inc :: "EERef \<Rightarrow> eeprom \<Rightarrow> EERef \<times> eeprom" where
  "EERef_pre_inc r s = EERef_add_assign r 1 s"

definition EERef_pre_dec :: "EERef \<Rightarrow> eeprom \<Rightarrow> EERef \<times> eeprom" where
  "EERef_pre_dec r s = EERef_sub_assign r 1 s"

definition EERef_post_inc :: "EERef \<Rightarrow> eeprom \<Rightarrow> uint8 \<times> eeprom" where
  "EERef_post_inc r s =
     (let (ret, s1) = EERef_deref r s; (r', s2) = EERef_pre_inc r s1 in (ret, s2))"

definition EERef_post_dec :: "EERef \<Rightarrow> eeprom \<Rightarrow> uint8 \<times> eeprom" where
  "EERef_post_dec r s =
     (let (ret, s1) = EERef_deref r s; (r', s2) = EERef_pre_dec r s1 in (ret, s2))"

section \<open>EEBit\<close>

datatype EEBit = EEBit (bit_ref: EERef) (bit_mask: uint8)

text \<open>
  \<open>EEBit( int index, uint8_t bidx ) : ref( index ), mask( 0x01 << bidx )\<close>: the shift is
  an \<open>int\<close> shift of the literal \<open>0x01\<close>, narrowed when it initialises \<open>mask\<close>.
\<close>

definition EEBit_ctor :: "int16 \<Rightarrow> uint8 \<Rightarrow> EEBit" where
  "EEBit_ctor index bidx = EEBit (EERef index) (narrow (push_bit (unat (promote bidx)) 1))"

definition EEBit_setIndex :: "EEBit \<Rightarrow> uint8 \<Rightarrow> EEBit" where
  "EEBit_setIndex b bidx = EEBit (bit_ref b) (narrow (push_bit (unat (promote bidx)) 1))"

text \<open>
  \<open>operator const bool() const { return ref & mask; }\<close>: \<open>ref\<close> converts to
  \<open>uint8_t\<close> (one read), both operands are promoted, and the \<open>int\<close> converts to
  \<open>bool\<close>.
\<close>

definition EEBit_bool :: "EEBit \<Rightarrow> eeprom \<Rightarrow> bool \<times> eeprom" where
  "EEBit_bool b s =
     (let (x, s1) = EERef_uint8 (bit_ref b) s
      in (promote x AND promote (bit_mask b) \<noteq> 0, s1))"

text \<open>
  \<open>EEBit &operator =( const bool &copy )\<close>.  \<open>~mask\<close> is computed on the promoted mask
  and narrowed by the call of \<open>operator &=\<close>.
\<close>

definition EEBit_assign_bool :: "EEBit \<Rightarrow> bool \<Rightarrow> eeprom \<Rightarrow> EEBit \<times> eeprom" where
  "EEBit_assign_bool b copy s =
     (if copy then (b, snd (EERef_or_assign (bit_ref b) (bit_mask b) s))
      else (b, snd (EERef_and_assign (bit_ref b) (narrow (NOT (promote (bit_mask b)))) s)))"

definition EEBit_assign :: "EEBit \<Rightarrow> EEBit \<Rightarrow> eeprom \<Rightarrow> EEBit \<times> eeprom" where
  "EEBit_assign b copy s =
     (let (v, s1) = EEBit_bool copy s in EEBit_assign_bool b v s1)"

definition EEBit_set :: "EEBit \<Rightarrow> eeprom \<Rightarrow> EEBit \<times> eeprom" where
  "EEBit_set b s = EEBit_assign_bool b True s"

definition EEBit_clear :: "EEBit \<Rightarrow> eeprom \<Rightarrow> EEBit \<times> eeprom" where
  "EEBit_clear b s = EEBit_assign_bool b False s"

text \<open>
  \<open>EEBit EERef::operator[]( const int bidx ) { return EEBit( index, bidx ); }\<close>: the
  \<open>int\<close> argument is narrowed to the constructor's \<open>uint8_t\<close> parameter.
\<close>

definition EERef_bit :: "EERef \<Rightarrow> int16 \<Rightarrow> EEBit" where
  "EERef_bit r bidx = EEBit_ctor (ref_index r) (narrow bidx)"

section \<open>EEPtr\<close>

datatype EEPtr = EEPtr (ptr_index: int16)

definition EEPtr_int :: "EEPtr \<Rightarrow> int16" where
  "EEPtr_int p = ptr_index p"

definition EEPtr_assign :: "EEPtr \<Rightarrow> int16 \<Rightarrow> EEPtr" where
  "EEPtr_assign p i = EEPtr i"

definition EEPtr_at :: "EEPtr \<Rightarrow> int16 \<Rightarrow> EERef" where
  "EEPtr_at p idx = EERef (ptr_index p + idx)"

definition EEPtr_deref :: "EEPtr \<Rightarrow> EERef" where
  "EEPtr_deref p = EERef (ptr_index p)"

definition EEPtr_neq :: "EEPtr \<Rightarrow> EEPtr \<Rightarrow> bool" where
  "EEPtr_neq p q = (ptr_index p \<noteq> ptr_index q)"

definition EEPtr_add_assign :: "EEPtr \<Rightarrow> int16 \<Rightarrow> EEPtr" where
  "EEPtr_add_assign p idx = EEPtr (ptr_index p + idx)"

definition EEPtr_sub_assign :: "EEPtr \<Rightarrow> int16 \<Rightarrow> EEPtr" where
  "EEPtr_sub_assign p idx = EEPtr (ptr_index p - idx)"

definition EEPtr_pre_inc :: "EEPtr \<Rightarrow> EEPtr" where
  "EEPtr_pre_inc p = EEPtr (ptr_index p + 1)"

definition EEPtr_pre_dec :: "EEPtr \<Rightarrow> EEPtr" where
  "EEPtr_pre_dec p = EEPtr (ptr_index p - 1)"

text \<open>
  The postfix forms return a pointer built from the old index; the second component is
  the pointer object after the operation.
\<close>

definition EEPtr_post_inc :: "EEPtr \<Rightarrow> EEPtr \<times> EEPtr" where
  "EEPtr_post_inc p = (EEPtr (ptr_index p), EEPtr (ptr_index p + 1))"

definition EEPtr_post_dec :: "EEPtr \<Rightarrow> EEPtr \<times> EEPtr" where
  "EEPtr_post_dec p = (EEPtr (ptr_index p), EEPtr (ptr_index p - 1))"

section \<open>EEPROMClass\<close>

definition EEPROM_read :: "EERef \<Rightarrow> EERef" where
  "EEPROM_read r = r"

definition EEPROM_write :: "EERef \<Rightarrow> uint8 \<Rightarrow> eeprom \<Rightarrow> eeprom" where
  "EEPROM_write r val s = snd (EERef_assign r val s)"

definition EEPROM_update :: "EERef \<Rightarrow> uint8 \<Rightarrow> eeprom \<Rightarrow> eeprom" where
  "EEPROM_update r val s = snd (EERef_update r val s)"

definition EEPROM_readBit :: "EERef \<Rightarrow> uint8 \<Rightarrow> EEBit" where
  "EEPROM_readBit r bidx = EERef_bit r (promote bidx)"

definition EEPROM_writeBit :: "EERef \<Rightarrow> uint8 \<Rightarrow> bool \<Rightarrow> eeprom \<Rightarrow> eeprom" where
  "EEPROM_writeBit r bidx val s = snd (EEBit_assign_bool (EERef_bit r (promote bidx)) val s)"

text \<open>
  \<open>E2END\<close> is a macro of \<open>avr/io.h\<close>, the last EEPROM address of the device; it is a
  parameter here.  \<open>length\<close> returns \<open>uint16_t\<close>, and \<open>end\<close> converts that to the
  \<open>int\<close> of the \<open>EEPtr\<close> constructor: the same 16 bits.
\<close>

definition EEPROM_begin :: EEPtr where
  "EEPROM_begin = EEPtr 0"

definition EEPROM_length :: "int16 \<Rightarrow> int16" where
  "EEPROM_length E2END = E2END + 1"

definition EEPROM_end :: "int16 \<Rightarrow> EEPtr" where
  "EEPROM_end E2END = EEPtr (EEPROM_length E2END)"

text \<open>
  \<open>get\<close> and \<open>put\<close>.  An object of type \<open>T\<close> is its object representation, a list of
  \<open>sizeof(T)\<close> bytes; \<open>dest\<close> and \<open>src\<close> are positions in it.  The loop counter is the
  \<open>int count\<close> of the source, the loop runs while it is not zero.
\<close>

function get_loop :: "int16 \<Rightarrow> EEPtr \<Rightarrow> uint8 list \<Rightarrow> nat \<Rightarrow> eeprom \<Rightarrow> uint8 list \<times> eeprom" where
  "get_loop count ptr t dest s =
     (if count \<noteq> 0 then
        (let (v, s1) = EERef_uint8 (EEPtr_deref ptr) s
         in get_loop (count - 1) (EEPtr_pre_inc ptr) (t[dest := v]) (Suc dest) s1)
      else (t, s))"
  by pat_completeness auto
termination
  by (relation "measure (\<lambda>(count, ptr, t, dest, s). unat count)") (auto simp: measure_unat)

definition EEPROM_get :: "EEPtr \<Rightarrow> uint8 list \<Rightarrow> eeprom \<Rightarrow> uint8 list \<times> eeprom" where
  "EEPROM_get ptr t s = get_loop (of_nat (length t)) ptr t 0 s"

function put_loop :: "int16 \<Rightarrow> EEPtr \<Rightarrow> uint8 list \<Rightarrow> nat \<Rightarrow> eeprom \<Rightarrow> eeprom" where
  "put_loop count ptr t src s =
     (if count \<noteq> 0 then
        put_loop (count - 1) (EEPtr_pre_inc ptr) t (Suc src)
          (snd (EERef_update (EEPtr_deref ptr) (t ! src) s))
      else s)"
  by pat_completeness auto
termination
  by (relation "measure (\<lambda>(count, ptr, t, src, s). unat count)") (auto simp: measure_unat)

definition EEPROM_put :: "EEPtr \<Rightarrow> uint8 list \<Rightarrow> eeprom \<Rightarrow> uint8 list \<times> eeprom" where
  "EEPROM_put ptr t s = (t, put_loop (of_nat (length t)) ptr t 0 s)"

text \<open>
  The iteration that \<open>begin\<close>, \<open>end\<close>, \<open>operator!=\<close>, the prefix \<open>operator++\<close> and
  \<open>operator*\<close> exist for, the range-based \<open>for\<close> of C++11:
  \<open>for( EEPtr it = begin, e = end; it != e; ++it ) visit( *it )\<close>.
  The result is the list of the cells visited, in order.
\<close>

function range_for :: "EEPtr \<Rightarrow> EEPtr \<Rightarrow> EERef list" where
  "range_for it e =
     (if EEPtr_neq it e then EEPtr_deref it # range_for (EEPtr_pre_inc it) e else [])"
  by pat_completeness auto
termination
proof (relation "measure (\<lambda>(it, e). unat (ptr_index e - ptr_index it))")
  show "wf (measure (\<lambda>(it, e). unat (ptr_index e - ptr_index it)))"
    by simp
next
  fix it e :: EEPtr
  assume "EEPtr_neq it e"
  then have "ptr_index e - ptr_index it \<noteq> 0"
    by (simp add: EEPtr_neq_def)
  then have "unat (ptr_index e - ptr_index it - 1) < unat (ptr_index e - ptr_index it)"
    by (rule measure_unat)
  moreover have "ptr_index e - ptr_index (EEPtr_pre_inc it) = ptr_index e - ptr_index it - 1"
    by (simp add: EEPtr_pre_inc_def)
  ultimately have "unat (ptr_index e - ptr_index (EEPtr_pre_inc it))
      < unat (ptr_index e - ptr_index it)"
    by (simp only:)
  then show "((EEPtr_pre_inc it, e), (it, e))
      \<in> measure (\<lambda>(it, e). unat (ptr_index e - ptr_index it))"
    by simp
qed

section \<open>Notions used to state the properties\<close>

text \<open>
  The state after one read of cell \<open>a\<close> followed by one write of \<open>v\<close> to it: the
  cell holds \<open>v\<close> and exactly those two accesses are added to the trace.
\<close>

definition read_then_write :: "int16 \<Rightarrow> uint8 \<Rightarrow> eeprom \<Rightarrow> eeprom" where
  "read_then_write a v s =
     s\<lparr>cells := (cells s)(a := v), trace := trace s @ [ReadByte a, WriteByte a v]\<rparr>"

text \<open>The bytes held by the \<open>n\<close> consecutive cells that start at address \<open>p\<close>.\<close>

definition stored :: "eeprom \<Rightarrow> int16 \<Rightarrow> nat \<Rightarrow> uint8 list" where
  "stored s p n = map (\<lambda>k. cells s (p + of_nat k)) [0..<n]"

section \<open>Promotion and narrowing\<close>

lemma uint_promote: "uint (promote x) = uint x"
  unfolding promote_def
  by (simp add: unsigned_ucast_eq take_bit_int_eq_self_iff less_trans [OF uint_bounded])

lemma unat_promote: "unat (promote n) = unat n"
  unfolding unat_eq_nat_uint uint_promote ..

lemma sint_promote: "sint (promote x) = uint x"
proof -
  have "uint x < 2 ^ 15"
    using uint_bounded [of x] by simp
  moreover have "- (2 ^ 15) \<le> uint x"
    using uint_ge_0 [of x] by (simp add: order_trans [of _ 0])
  ultimately have "signed_take_bit 15 (uint x) = uint x"
    by (simp add: signed_take_bit_int_eq_self)
  then show ?thesis
    unfolding promote_def by (simp add: signed_ucast_eq)
qed

lemma promote_eq_0: "promote n = 0 \<longleftrightarrow> n = 0"
proof -
  have "promote n = 0 \<longleftrightarrow> uint (promote n) = 0"
    by (simp add: uint_0_iff)
  then show ?thesis
    by (simp add: uint_promote uint_0_iff)
qed

lemma promote_eq_iff: "promote v = promote x \<longleftrightarrow> v = x"
proof
  assume "promote v = promote x"
  then have "uint (promote v) = uint (promote x)"
    by simp
  then have "uint v = uint x"
    by (simp only: uint_promote)
  then show "v = x"
    by (rule word_uint_eqI)
qed simp

lemma narrow_promote: "narrow (promote x) = x"
  unfolding narrow_def promote_def
  by (rule bit_word_eqI) (simp add: bit_simps)

lemma narrow_add: "narrow (promote x + promote n) = x + n"
  by (rule word_uint_eqI)
    (simp add: narrow_def unsigned_ucast_eq uint_promote take_bit_eq_mod uint_word_ariths
      mod_mod_cancel)

lemma narrow_sub: "narrow (promote x - promote n) = x - n"
  by (rule word_uint_eqI)
    (simp add: narrow_def unsigned_ucast_eq uint_promote take_bit_eq_mod uint_word_ariths
      mod_mod_cancel)

lemma narrow_mul: "narrow (promote x * promote n) = x * n"
  by (rule word_uint_eqI)
    (simp add: narrow_def unsigned_ucast_eq uint_promote take_bit_eq_mod uint_word_ariths
      mod_mod_cancel)

lemma narrow_xor: "narrow (promote x XOR promote n) = x XOR n"
  unfolding narrow_def promote_def
  by (rule bit_word_eqI) (simp add: bit_simps)

lemma narrow_and: "narrow (promote x AND promote n) = x AND n"
  unfolding narrow_def promote_def
  by (rule bit_word_eqI) (simp add: bit_simps)

lemma narrow_or: "narrow (promote x OR promote n) = x OR n"
  unfolding narrow_def promote_def
  by (rule bit_word_eqI) (simp add: bit_simps)

lemma narrow_not: "narrow (NOT (promote x)) = NOT x"
  unfolding narrow_def promote_def
  by (rule bit_word_eqI) (simp add: bit_simps)

lemma narrow_shl: "narrow (push_bit (unat (promote n)) (promote x)) = push_bit (unat n) x"
  unfolding unat_promote unfolding narrow_def promote_def
  by (rule bit_word_eqI) (auto simp add: bit_simps)

lemma narrow_shr: "narrow (drop_bit (unat (promote n)) (promote x)) = drop_bit (unat n) x"
  unfolding unat_promote unfolding narrow_def promote_def
  by (rule bit_word_eqI) (auto simp add: bit_simps dest: bit_imp_le_length)

lemma sdiv_nonneg: "0 \<le> k \<Longrightarrow> 0 \<le> l \<Longrightarrow> k sdiv l = k div (l :: int)"
  by (cases "k = 0"; cases "l = 0") (simp_all add: signed_divide_int_def)

lemma smod_nonneg: "0 \<le> k \<Longrightarrow> 0 \<le> l \<Longrightarrow> k smod l = k mod (l :: int)"
  by (cases "k = 0"; cases "l = 0") (simp_all add: signed_modulo_int_def)

lemma int_div_promote:
  assumes "n \<noteq> 0"
  shows "int_div (promote x) (promote n) = Inr (promote (x div n))"
proof -
  have "sint (promote x) sdiv sint (promote n) = uint (x div n)"
    by (simp add: sint_promote sdiv_nonneg uint_div)
  then have "(word_of_int (sint (promote x) sdiv sint (promote n)) :: int16) = promote (x div n)"
    by (simp add: promote_def)
  with assms show ?thesis
    by (simp add: int_div_def promote_eq_0)
qed

lemma int_mod_promote:
  assumes "n \<noteq> 0"
  shows "int_mod (promote x) (promote n) = Inr (promote (x mod n))"
proof -
  have "sint (promote x) smod sint (promote n) = uint (x mod n)"
    by (simp add: sint_promote smod_nonneg uint_mod)
  then have "(word_of_int (sint (promote x) smod sint (promote n)) :: int16) = promote (x mod n)"
    by (simp add: promote_def)
  with assms show ?thesis
    by (simp add: int_mod_def promote_eq_0)
qed

section \<open>The effect of the cell operations\<close>

lemma EERef_deref_eq:
  "EERef_deref r s =
     (cells s (ref_index r), s\<lparr>trace := trace s @ [ReadByte (ref_index r)]\<rparr>)"
  by (simp add: EERef_deref_def eeprom_read_byte_def)

lemma EERef_assign_eq:
  "EERef_assign r v s =
     (r, s\<lparr>cells := (cells s)(ref_index r := v),
           trace := trace s @ [WriteByte (ref_index r) v]\<rparr>)"
  by (simp add: EERef_assign_def eeprom_write_byte_def)

lemma write_count_read_then_write:
  "write_count (read_then_write a v s) = Suc (write_count s)"
  by (simp add: write_count_def writes_def read_then_write_def)

lemma EERef_add_assign_eq:
  "EERef_add_assign r n s = (r, read_then_write (ref_index r) (cells s (ref_index r) + n) s)"
  by (simp add: EERef_add_assign_def EERef_deref_eq EERef_assign_eq read_then_write_def
      narrow_add)

lemma EERef_sub_assign_eq:
  "EERef_sub_assign r n s = (r, read_then_write (ref_index r) (cells s (ref_index r) - n) s)"
  by (simp add: EERef_sub_assign_def EERef_deref_eq EERef_assign_eq read_then_write_def
      narrow_sub)

lemma EERef_mul_assign_eq:
  "EERef_mul_assign r n s = (r, read_then_write (ref_index r) (cells s (ref_index r) * n) s)"
  by (simp add: EERef_mul_assign_def EERef_deref_eq EERef_assign_eq read_then_write_def
      narrow_mul)

lemma EERef_xor_assign_eq:
  "EERef_xor_assign r n s = (r, read_then_write (ref_index r) (cells s (ref_index r) XOR n) s)"
  by (simp add: EERef_xor_assign_def EERef_deref_eq EERef_assign_eq read_then_write_def
      narrow_xor)

lemma EERef_and_assign_eq:
  "EERef_and_assign r n s = (r, read_then_write (ref_index r) (cells s (ref_index r) AND n) s)"
  by (simp add: EERef_and_assign_def EERef_deref_eq EERef_assign_eq read_then_write_def
      narrow_and)

lemma EERef_or_assign_eq:
  "EERef_or_assign r n s = (r, read_then_write (ref_index r) (cells s (ref_index r) OR n) s)"
  by (simp add: EERef_or_assign_def EERef_deref_eq EERef_assign_eq read_then_write_def
      narrow_or)

lemma EERef_shl_assign_eq:
  "EERef_shl_assign r n s =
     (r, read_then_write (ref_index r) (push_bit (unat n) (cells s (ref_index r))) s)"
  by (simp add: EERef_shl_assign_def EERef_deref_eq EERef_assign_eq read_then_write_def
      narrow_shl)

lemma EERef_shr_assign_eq:
  "EERef_shr_assign r n s =
     (r, read_then_write (ref_index r) (drop_bit (unat n) (cells s (ref_index r))) s)"
  by (simp add: EERef_shr_assign_def EERef_deref_eq EERef_assign_eq read_then_write_def
      narrow_shr)

lemma EERef_div_assign_eq:
  "n \<noteq> 0 \<Longrightarrow>
   EERef_div_assign r n s =
     Inr (r, read_then_write (ref_index r) (cells s (ref_index r) div n) s)"
  by (simp add: EERef_div_assign_def EERef_deref_eq EERef_assign_eq read_then_write_def
      int_div_promote narrow_promote)

lemma EERef_mod_assign_eq:
  "n \<noteq> 0 \<Longrightarrow>
   EERef_mod_assign r n s =
     Inr (r, read_then_write (ref_index r) (cells s (ref_index r) mod n) s)"
  by (simp add: EERef_mod_assign_def EERef_deref_eq EERef_assign_eq read_then_write_def
      int_mod_promote narrow_promote)

lemma EERef_update_eq:
  "EERef_update r v s =
     (r, if cells s (ref_index r) = v
         then s\<lparr>trace := trace s @ [ReadByte (ref_index r)]\<rparr>
         else read_then_write (ref_index r) v s)"
  by (simp add: EERef_update_def EERef_uint8_def EERef_deref_eq EERef_assign_eq
      read_then_write_def promote_eq_iff eq_commute [of v])

lemma read_then_write_eq:
  "snd (EERef_assign r v (snd (EERef_deref r s))) = read_then_write (ref_index r) v s"
  by (simp add: EERef_deref_eq EERef_assign_eq read_then_write_def)

lemma EEPROM_write_eq:
  "EEPROM_write (EERef a) v s =
     s\<lparr>cells := (cells s)(a := v), trace := trace s @ [WriteByte a v]\<rparr>"
  by (simp add: EEPROM_write_def EERef_assign_eq)

lemma read_value_eq:
  "EERef_uint8 (EEPROM_read (EERef a)) s = (cells s a, s\<lparr>trace := trace s @ [ReadByte a]\<rparr>)"
  by (simp add: EERef_uint8_def EEPROM_read_def EERef_deref_eq)

lemma cells_after_reads:
  "cells (((\<lambda>t. snd (EERef_uint8 (EEPROM_read (EERef a)) t)) ^^ k) s) = cells s"
  by (induction k) (simp_all add: read_value_eq)

lemma EEPROM_update_eq:
  "EEPROM_update (EERef a) v s =
     (if cells s a = v then s\<lparr>trace := trace s @ [ReadByte a]\<rparr> else read_then_write a v s)"
  by (simp add: EEPROM_update_def EERef_update_eq)

lemma unat_dec_uint8: "unat (x - 1 :: uint8) = (unat x + 255) mod 256"
proof -
  have "x - 1 = x + 255"
    by simp
  then have "unat (x - 1) = unat (x + 255)"
    by (simp only:)
  also have "\<dots> = (unat x + unat (255 :: uint8)) mod 2 ^ LENGTH(8)"
    by (rule unat_word_ariths)
  finally show ?thesis
    by simp
qed

lemma EERef_post_inc_eq:
  "EERef_post_inc r s =
     (cells s (ref_index r),
      s\<lparr>cells := (cells s)(ref_index r := cells s (ref_index r) + 1),
        trace := trace s @ [ReadByte (ref_index r), ReadByte (ref_index r),
          WriteByte (ref_index r) (cells s (ref_index r) + 1)]\<rparr>)"
  by (simp add: EERef_post_inc_def EERef_pre_inc_def EERef_deref_eq EERef_add_assign_eq
      read_then_write_def)

lemma EERef_post_dec_eq:
  "EERef_post_dec r s =
     (cells s (ref_index r),
      s\<lparr>cells := (cells s)(ref_index r := cells s (ref_index r) - 1),
        trace := trace s @ [ReadByte (ref_index r), ReadByte (ref_index r),
          WriteByte (ref_index r) (cells s (ref_index r) - 1)]\<rparr>)"
  by (simp add: EERef_post_dec_def EERef_pre_dec_def EERef_deref_eq EERef_sub_assign_eq
      read_then_write_def)

section \<open>Bit masks\<close>

lemma narrow_bit_mask: "narrow (2 ^ unat (promote i)) = 2 ^ unat i"
  unfolding unat_promote unfolding narrow_def
  by (rule bit_word_eqI) (auto simp add: bit_simps)

lemma promote_and_eq_0: "promote x AND promote m = 0 \<longleftrightarrow> x AND m = 0"
proof -
  have "promote x AND promote m = promote (x AND m)"
    unfolding promote_def by (rule bit_word_eqI) (auto simp add: bit_simps)
  then show ?thesis
    by (simp add: promote_eq_0)
qed

lemma and_bit_mask_eq_0: "x AND 2 ^ k = 0 \<longleftrightarrow> \<not> bit x k" for x :: uint8
proof
  assume "x AND 2 ^ k = 0"
  then have "\<not> bit (x AND 2 ^ k) k"
    by simp
  then show "\<not> bit x k"
    by (auto simp add: bit_simps dest: bit_imp_le_length)
next
  assume "\<not> bit x k"
  then show "x AND 2 ^ k = 0"
    by (intro bit_word_eqI) (auto simp add: bit_simps)
qed

lemma clear_then_test: "(x AND NOT (2 ^ k)) AND 2 ^ k = 0" for x :: uint8
  by (rule bit_word_eqI) (auto simp add: bit_simps)

lemma set_then_test: "k < 8 \<Longrightarrow> (x OR 2 ^ k) AND 2 ^ k \<noteq> 0" for x :: uint8
  by (simp add: and_bit_mask_eq_0 bit_simps)

lemma EEPROM_readBit_eq: "EEPROM_readBit (EERef a) i = EEBit (EERef a) (push_bit (unat i) 1)"
  by (simp add: EEPROM_readBit_def EERef_bit_def EEBit_ctor_def narrow_promote narrow_bit_mask)

lemma EEBit_bool_eq:
  "EEBit_bool (EEBit (EERef a) m) s = (cells s a AND m \<noteq> 0, s\<lparr>trace := trace s @ [ReadByte a]\<rparr>)"
  by (simp add: EEBit_bool_def EERef_uint8_def EERef_deref_eq promote_and_eq_0)

lemma EEPROM_writeBit_eq:
  "EEPROM_writeBit (EERef a) i b s =
     read_then_write a
       (if b then cells s a OR push_bit (unat i) 1 else cells s a AND NOT (push_bit (unat i) 1)) s"
  by (simp add: EEPROM_writeBit_def EEBit_assign_bool_def EERef_bit_def EEBit_ctor_def
      narrow_promote narrow_bit_mask EERef_or_assign_eq EERef_and_assign_eq narrow_not)

section \<open>Addresses and iteration\<close>

lemma unat_of_nat_int16: "n < 65536 \<Longrightarrow> unat (of_nat n :: int16) = n"
  by (simp add: unat_of_nat)

lemma upt_Suc_shift: "map f [0..<Suc n] = f 0 # map (\<lambda>k. f (Suc k)) [0..<n]"
proof -
  have "[0..<Suc n] = 0 # map Suc [0..<n]"
    by (simp only: upt_conv_Cons [of 0 "Suc n"] map_Suc_upt zero_less_Suc)
  then show ?thesis
    by (simp only: list.map map_map o_def)
qed

lemma range_for_steps:
  "unat (e - p) = n \<Longrightarrow>
   range_for (EEPtr p) (EEPtr e) = map (\<lambda>k. EERef (p + of_nat k)) [0..<n]"
proof (induction n arbitrary: p)
  case 0
  then have "e - p = 0"
    by (simp only: unat_0_iff)
  then have "e = p"
    by simp
  then show ?case
    by (simp add: EEPtr_neq_def)
next
  case (Suc n)
  have ne: "e - p \<noteq> 0"
  proof
    assume "e - p = 0"
    then have "unat (e - p) = 0" by simp
    with Suc.prems show False by simp
  qed
  then have "unat (e - p - 1) = unat (e - p) - 1"
    by (rule unat_minus_one)
  moreover have "e - (p + 1) = e - p - 1"
    by simp
  ultimately have "unat (e - (p + 1)) = n"
    using Suc.prems by (simp only: diff_Suc_1)
  then have "range_for (EEPtr (p + 1)) (EEPtr e) = map (\<lambda>k. EERef (p + 1 + of_nat k)) [0..<n]"
    by (rule Suc.IH)
  moreover have "map (\<lambda>k. EERef (p + of_nat k)) [0..<Suc n]
      = EERef p # map (\<lambda>k. EERef (p + 1 + of_nat k)) [0..<n]"
    by (simp only: upt_Suc_shift [of "\<lambda>k. EERef (p + of_nat k)"] of_nat_Suc semiring_1_class.of_nat_0
        add_0_right add.assoc)
  moreover have "EEPtr_neq (EEPtr p) (EEPtr e)"
    using ne by (auto simp add: EEPtr_neq_def)
  ultimately show ?case
    by (simp only: range_for.simps [of "EEPtr p"] if_True EEPtr_deref_def EEPtr_pre_inc_def
        EEPtr.sel)
qed

lemma inj_on_address: "n \<le> 65536 \<Longrightarrow> inj_on (\<lambda>k. p + (of_nat k :: int16)) {0..<n}"
proof (rule inj_onI)
  fix j k
  assume n: "n \<le> 65536" and j: "j \<in> {0..<n}" and k: "k \<in> {0..<n}"
    and eq: "p + (of_nat j :: int16) = p + of_nat k"
  from n j have "j < 65536"
    by simp
  then have uj: "unat (of_nat j :: int16) = j"
    by (rule unat_of_nat_int16)
  from n k have "k < 65536"
    by simp
  then have uk: "unat (of_nat k :: int16) = k"
    by (rule unat_of_nat_int16)
  from eq have "(of_nat j :: int16) = of_nat k"
    by (rule add_left_imp_eq)
  then have "unat (of_nat j :: int16) = unat (of_nat k :: int16)"
    by (rule arg_cong)
  then show "j = k"
    by (simp only: uj uk)
qed

lemma distinct_addresses:
  "n \<le> 65536 \<Longrightarrow> distinct (map (\<lambda>k. p + (of_nat k :: int16)) [0..<n])"
  by (simp only: distinct_map distinct_upt atLeastLessThan_upt [symmetric] inj_on_address simp_thms)

lemma unat_int16_le: "unat (w :: int16) \<le> 65536"
proof -
  have "unat w < 2 ^ LENGTH(16)"
    by (rule unsigned_less)
  then show ?thesis
    by simp
qed


lemma distinct_map_EERef: "distinct xs \<Longrightarrow> distinct (map EERef xs)"
  by (simp add: distinct_map inj_on_def)

lemma unat_EEPROM_length:
  assumes "E2END \<noteq> 65535"
  shows "unat (EEPROM_length E2END) = Suc (unat E2END)"
proof -
  have "1 + E2END \<noteq> 0"
  proof
    assume "1 + E2END = 0"
    then have "E2END = - 1"
      by (simp add: add_eq_0_iff)
    then have "E2END = 65535"
      by simp
    with assms show False
      by simp
  qed
  then have "unat (1 + E2END) = Suc (unat E2END)"
    by (rule unatSuc)
  then show ?thesis
    by (simp only: EEPROM_length_def add.commute [of E2END 1])
qed

lemma set_addresses_upto:
  "set (map (\<lambda>k. of_nat k :: int16) [0..<Suc (unat E)]) = {a. a \<le> E}"
proof (rule set_eqI)
  fix a :: int16
  show "a \<in> set (map (\<lambda>k. of_nat k :: int16) [0..<Suc (unat E)]) \<longleftrightarrow> a \<in> {a. a \<le> E}"
  proof
    assume "a \<in> set (map (\<lambda>k. of_nat k :: int16) [0..<Suc (unat E)])"
    then have "a \<in> (\<lambda>k. of_nat k :: int16) ` {0..<Suc (unat E)}"
      by (simp only: set_map set_upt)
    then obtain k where k: "k < Suc (unat E)" and a: "a = of_nat k"
      by (auto simp only: image_iff atLeastLessThan_iff)
    have "unat E < 65536"
      using unsigned_less [of E, where ?'a = nat] by simp
    with k have "k < 65536"
      by simp
    then have "unat (of_nat k :: int16) = k"
      by (rule unat_of_nat_int16)
    with k a have "unat a \<le> unat E"
      by simp
    then show "a \<in> {a. a \<le> E}"
      by (simp add: word_le_nat_alt)
  next
    assume "a \<in> {a. a \<le> E}"
    then have "unat a < Suc (unat E)"
      by (simp add: word_le_nat_alt)
    moreover have "a = of_nat (unat a)"
      by simp
    ultimately have "a \<in> (\<lambda>k. of_nat k :: int16) ` {0..<Suc (unat E)}"
      by (intro image_eqI [of a _ "unat a"]) simp_all
    then show "a \<in> set (map (\<lambda>k. of_nat k :: int16) [0..<Suc (unat E)])"
      by (simp only: set_map set_upt)
  qed
qed

lemma EEPtr_pre_inc_funpow: "(EEPtr_pre_inc ^^ k) (EEPtr a) = EEPtr (a + of_nat k)"
  by (induction k) (simp_all add: EEPtr_pre_inc_def add.assoc add.commute [of 1])


lemma image_EERef_le: "EERef ` {a. a \<le> E} = {r. ref_index r \<le> E}"
proof (rule set_eqI)
  fix r
  show "r \<in> EERef ` {a. a \<le> E} \<longleftrightarrow> r \<in> {r. ref_index r \<le> E}"
    by (cases r) auto
qed

section \<open>The loops of get and put\<close>

lemma of_nat_Suc_neq_0: "Suc n < 65536 \<Longrightarrow> (of_nat (Suc n) :: int16) \<noteq> 0"
proof
  assume "Suc n < 65536"
  then have "unat (of_nat (Suc n) :: int16) = Suc n"
    by (rule unat_of_nat_int16)
  moreover assume "(of_nat (Suc n) :: int16) = 0"
  then have "unat (of_nat (Suc n) :: int16) = unat (0 :: int16)"
    by (rule arg_cong)
  ultimately show False
    by simp
qed

lemma cells_EEPROM_update: "cells (EEPROM_update (EERef p) v s) = (cells s)(p := v)"
  by (auto simp add: EEPROM_update_eq read_then_write_def)

lemma trace_EEPROM_update:
  "trace (EEPROM_update (EERef p) v s) =
     trace s @ ReadByte p # (if cells s p = v then [] else [WriteByte p v])"
  by (simp add: EEPROM_update_eq read_then_write_def)

lemma put_loop_0: "put_loop 0 ptr t i s = s"
  by simp

lemma put_loop_Suc:
  assumes "Suc n < 65536"
  shows "put_loop (of_nat (Suc n)) (EEPtr p) t i s =
     put_loop (of_nat n) (EEPtr (p + 1)) t (Suc i) (EEPROM_update (EERef p) (t ! i) s)"
proof -
  have "(of_nat (Suc n) :: int16) \<noteq> 0"
    using assms by (rule of_nat_Suc_neq_0)
  moreover have "(of_nat (Suc n) :: int16) - 1 = of_nat n"
    by simp
  ultimately show ?thesis
    by (simp only: put_loop.simps [of "of_nat (Suc n)"] if_True EEPtr_pre_inc_def EEPtr_deref_def
        EEPtr.sel EEPROM_update_def simp_thms)
qed

lemma get_loop_0: "get_loop 0 ptr t i s = (t, s)"
  by simp

lemma get_loop_Suc:
  assumes "Suc n < 65536"
  shows "get_loop (of_nat (Suc n)) (EEPtr p) t i s =
     get_loop (of_nat n) (EEPtr (p + 1)) (t[i := cells s p]) (Suc i)
       (s\<lparr>trace := trace s @ [ReadByte p]\<rparr>)"
proof -
  have "(of_nat (Suc n) :: int16) \<noteq> 0"
    using assms by (rule of_nat_Suc_neq_0)
  moreover have "(of_nat (Suc n) :: int16) - 1 = of_nat n"
    by simp
  ultimately show ?thesis
    by (simp only: get_loop.simps [of "of_nat (Suc n)"] if_True EEPtr_pre_inc_def EEPtr_deref_def
        EEPtr.sel EERef_uint8_def EERef_deref_eq EERef.sel Let_def prod.case simp_thms)
qed


lemma unat_diff_succ:
  "q \<noteq> p \<Longrightarrow> unat (q - (p + 1)) = unat (q - p) - 1 \<and> 0 < unat (q - p)" for p q :: int16
proof -
  assume "q \<noteq> p"
  then have ne: "q - p \<noteq> 0"
    by simp
  then have "unat (q - p - 1) = unat (q - p) - 1"
    by (rule unat_minus_one)
  moreover have "q - (p + 1) = q - p - 1"
    by simp
  moreover from ne have "0 < unat (q - p)"
    by (simp add: unat_gt_0)
  ultimately show ?thesis
    by (simp only: simp_thms)
qed

lemma unat_diff_pred: "unat (p - (p + 1)) = 65535" for p :: int16
proof -
  have "p - (p + 1) = - 1"
    by simp
  moreover have "unat (- 1 :: int16) = 65535"
    by (simp add: unsigned_minus_1_eq_mask mask_eq_exp_minus_1)
  ultimately show ?thesis
    by (simp only:)
qed

lemma put_loop_cells:
  "n < 65536 \<Longrightarrow>
   cells (put_loop (of_nat n) (EEPtr p) t i s) =
     (\<lambda>q. if unat (q - p) < n then t ! (i + unat (q - p)) else cells s q)"
proof (induction n arbitrary: p i s)
  case 0
  show ?case
    by (simp add: put_loop_0)
next
  case (Suc n)
  let ?s' = "EEPROM_update (EERef p) (t ! i) s"
  from Suc.prems have n: "n < 65536"
    by simp
  have step: "put_loop (of_nat (Suc n)) (EEPtr p) t i s =
      put_loop (of_nat n) (EEPtr (p + 1)) t (Suc i) ?s'"
    using Suc.prems by (rule put_loop_Suc)
  have IH: "cells (put_loop (of_nat n) (EEPtr (p + 1)) t (Suc i) ?s') =
      (\<lambda>q. if unat (q - (p + 1)) < n then t ! (Suc i + unat (q - (p + 1))) else cells ?s' q)"
    using n by (rule Suc.IH)
  show ?case
  proof (rule ext)
    fix q
    show "cells (put_loop (of_nat (Suc n)) (EEPtr p) t i s) q =
        (if unat (q - p) < Suc n then t ! (i + unat (q - p)) else cells s q)"
    proof (cases "q = p")
      case True
      have "\<not> unat (p - (p + 1)) < n"
        using Suc.prems unfolding unat_diff_pred by simp
      then show ?thesis
        unfolding step IH True by (simp add: cells_EEPROM_update)
    next
      case False
      then have "unat (q - (p + 1)) = unat (q - p) - 1 \<and> 0 < unat (q - p)"
        by (rule unat_diff_succ)
      moreover from this have "(unat (q - p) - 1 < n) = (unat (q - p) < Suc n)"
        by auto
      ultimately show ?thesis
        using False unfolding step IH by (simp add: cells_EEPROM_update)
    qed
  qed
qed

lemma unat_offset: "k < 65536 \<Longrightarrow> unat (p + of_nat k - p) = k" for p :: int16
  by (simp add: unat_of_nat_int16)

lemma stored_put_loop:
  assumes "n < 65536"
  shows "stored (put_loop (of_nat n) (EEPtr p) t i s) p n = map (\<lambda>k. t ! (i + k)) [0..<n]"
  unfolding stored_def
proof (rule map_cong [OF refl])
  fix k
  assume "k \<in> set [0..<n]"
  then have k: "k < n"
    by simp
  with assms have "k < 65536"
    by simp
  then have "unat (p + of_nat k - p) = k"
    by (rule unat_offset)
  with k show "cells (put_loop (of_nat n) (EEPtr p) t i s) (p + of_nat k) = t ! (i + k)"
    unfolding put_loop_cells [OF assms] by simp
qed

lemma stored_Suc: "stored s p (Suc n) = cells s p # stored s (p + 1) n"
  unfolding stored_def
  by (simp only: upt_Suc_shift [of "\<lambda>k. cells s (p + of_nat k)"] of_nat_Suc
      semiring_1_class.of_nat_0 add_0_right add.assoc)

lemma get_loop_eq:
  "n < 65536 \<Longrightarrow> i + n \<le> length t \<Longrightarrow>
   get_loop (of_nat n) (EEPtr p) t i s =
     (take i t @ stored s p n @ drop (i + n) t,
      s\<lparr>trace := trace s @ map (\<lambda>k. ReadByte (p + of_nat k)) [0..<n]\<rparr>)"
proof (induction n arbitrary: p t i s)
  case 0
  show ?case
    by (simp add: get_loop_0 stored_def)
next
  case (Suc n)
  let ?t' = "t[i := cells s p]"
  let ?s' = "s\<lparr>trace := trace s @ [ReadByte p]\<rparr>"
  from Suc.prems have n: "n < 65536" and len: "Suc i + n \<le> length ?t'" and i: "i < length t"
    by simp_all
  have step: "get_loop (of_nat (Suc n)) (EEPtr p) t i s =
      get_loop (of_nat n) (EEPtr (p + 1)) ?t' (Suc i) ?s'"
    using Suc.prems(1) by (rule get_loop_Suc)
  have IH: "get_loop (of_nat n) (EEPtr (p + 1)) ?t' (Suc i) ?s' =
      (take (Suc i) ?t' @ stored ?s' (p + 1) n @ drop (Suc i + n) ?t',
       ?s'\<lparr>trace := trace ?s' @ map (\<lambda>k. ReadByte (p + 1 + of_nat k)) [0..<n]\<rparr>)"
    using n len by (rule Suc.IH)
  have t1: "take (Suc i) ?t' = take i t @ [cells s p]"
    using i by (simp add: take_Suc_conv_app_nth)
  have t2: "drop (Suc i + n) ?t' = drop (i + Suc n) t"
    by simp
  have t3: "stored ?s' (p + 1) n = stored s (p + 1) n"
    by (simp add: stored_def)
  have t4: "map (\<lambda>k. ReadByte (p + of_nat k)) [0..<Suc n] =
      ReadByte p # map (\<lambda>k. ReadByte (p + 1 + of_nat k)) [0..<n]"
    by (simp only: upt_Suc_shift [of "\<lambda>k. ReadByte (p + of_nat k)"] of_nat_Suc
      semiring_1_class.of_nat_0 add_0_right add.assoc)
  show ?case
    unfolding step IH t1 t2 t3 t4 stored_Suc by simp
qed


lemma address_succ_neq: "Suc k < 65536 \<Longrightarrow> p + 1 + of_nat k \<noteq> p" for p :: int16
proof
  assume "Suc k < 65536"
  then have "(of_nat (Suc k) :: int16) \<noteq> 0"
    by (rule of_nat_Suc_neq_0)
  moreover assume "p + 1 + of_nat k = p"
  then have "p + of_nat (Suc k) = p + 0"
    by (simp add: add.assoc)
  then have "(of_nat (Suc k) :: int16) = 0"
    by (rule add_left_imp_eq)
  ultimately show False
    by simp
qed

lemma put_loop_trace:
  "n < 65536 \<Longrightarrow>
   trace (put_loop (of_nat n) (EEPtr p) t i s) =
     trace s @ concat (map (\<lambda>k. ReadByte (p + of_nat k) #
       (if cells s (p + of_nat k) = t ! (i + k) then []
        else [WriteByte (p + of_nat k) (t ! (i + k))])) [0..<n])"
proof (induction n arbitrary: p i s)
  case 0
  show ?case
    by (simp add: put_loop_0)
next
  case (Suc n)
  let ?s' = "EEPROM_update (EERef p) (t ! i) s"
  let ?f = "\<lambda>s p i k. ReadByte (p + of_nat k) #
       (if cells s (p + of_nat k) = t ! (i + k) then []
        else [WriteByte (p + of_nat k) (t ! (i + k))])"
  from Suc.prems have n: "n < 65536"
    by simp
  have step: "put_loop (of_nat (Suc n)) (EEPtr p) t i s =
      put_loop (of_nat n) (EEPtr (p + 1)) t (Suc i) ?s'"
    using Suc.prems by (rule put_loop_Suc)
  have IH: "trace (put_loop (of_nat n) (EEPtr (p + 1)) t (Suc i) ?s') =
      trace ?s' @ concat (map (?f ?s' (p + 1) (Suc i)) [0..<n])"
    using n by (rule Suc.IH)
  have frame: "map (?f ?s' (p + 1) (Suc i)) [0..<n] = map (\<lambda>k. ?f s p i (Suc k)) [0..<n]"
  proof (rule map_cong [OF refl])
    fix k
    assume "k \<in> set [0..<n]"
    with Suc.prems have "Suc k < 65536"
      by simp
    then have "p + 1 + of_nat k \<noteq> p"
      by (rule address_succ_neq)
    then show "?f ?s' (p + 1) (Suc i) k = ?f s p i (Suc k)"
      by (simp add: cells_EEPROM_update add.assoc)
  qed
  have split: "map (?f s p i) [0..<Suc n] = ?f s p i 0 # map (\<lambda>k. ?f s p i (Suc k)) [0..<n]"
    by (rule upt_Suc_shift)
  show ?case
    unfolding step IH frame split by (simp add: trace_EEPROM_update)
qed

lemma filter_is_write_accesses:
  "filter is_write (concat (map (\<lambda>k. ReadByte (a k) # (if c k then [] else [WriteByte (a k) (v k)])) ks))
     = map (\<lambda>k. WriteByte (a k) (v k)) (filter (\<lambda>k. \<not> c k) ks)"
  by (induction ks) simp_all

lemma put_loop_writes:
  assumes "n < 65536"
  shows "writes (put_loop (of_nat n) (EEPtr p) t i s) =
     writes s @ map (\<lambda>k. WriteByte (p + of_nat k) (t ! (i + k)))
       (filter (\<lambda>k. cells s (p + of_nat k) \<noteq> t ! (i + k)) [0..<n])"
  unfolding writes_def put_loop_trace [OF assms] filter_append
  by (simp only: filter_is_write_accesses)

lemma put_loop_cells_same:
  assumes "n < 65536" and "stored s p n = map (\<lambda>k. t ! (i + k)) [0..<n]"
  shows "cells (put_loop (of_nat n) (EEPtr p) t i s) = cells s"
proof (rule ext)
  fix q
  show "cells (put_loop (of_nat n) (EEPtr p) t i s) q = cells s q"
  proof (cases "unat (q - p) < n")
    case True
    then have "stored s p n ! unat (q - p) = map (\<lambda>k. t ! (i + k)) [0..<n] ! unat (q - p)"
      using assms(2) by simp
    with True have "cells s (p + of_nat (unat (q - p))) = t ! (i + unat (q - p))"
      by (simp add: stored_def)
    then have "cells s q = t ! (i + unat (q - p))"
      by simp
    with True show ?thesis
      unfolding put_loop_cells [OF assms(1)] by simp
  next
    case False
    then show ?thesis
      unfolding put_loop_cells [OF assms(1)] by simp
  qed
qed

section \<open>Byte access\<close>

text \<open>
  Claim C7.  For every address \<open>a\<close> of the range \<open>[0, length())\<close> and every byte
  \<open>v\<close>: reading the cell after \<open>write(a, v)\<close> returns \<open>v\<close>.  \<open>read(a)\<close> converted
  to a byte returns the byte stored at \<open>a\<close> and leaves every cell as it was; the same
  holds after any number \<open>k\<close> of earlier reads, so no value is cached between the proxy
  and the primitive.
\<close>

theorem write_then_read:
  assumes "a < EEPROM_length E2END"
  shows "fst (EERef_uint8 (EEPROM_read (EERef a)) (EEPROM_write (EERef a) v s)) = v
    \<and> fst (EERef_uint8 (EEPROM_read (EERef a)) s) = cells s a
    \<and> cells (snd (EERef_uint8 (EEPROM_read (EERef a)) s)) = cells s
    \<and> cells (((\<lambda>t. snd (EERef_uint8 (EEPROM_read (EERef a)) t)) ^^ k) s) = cells s
    \<and> fst (EERef_uint8 (EEPROM_read (EERef a))
           (((\<lambda>t. snd (EERef_uint8 (EEPROM_read (EERef a)) t)) ^^ k) s)) = cells s a"
proof (intro conjI)
  show "fst (EERef_uint8 (EEPROM_read (EERef a)) (EEPROM_write (EERef a) v s)) = v"
    by (simp add: read_value_eq EEPROM_write_eq)
  show "fst (EERef_uint8 (EEPROM_read (EERef a)) s) = cells s a"
    by (simp add: read_value_eq)
  show "cells (snd (EERef_uint8 (EEPROM_read (EERef a)) s)) = cells s"
    by (simp add: read_value_eq)
  show "cells (((\<lambda>t. snd (EERef_uint8 (EEPROM_read (EERef a)) t)) ^^ k) s) = cells s"
    by (rule cells_after_reads)
  show "fst (EERef_uint8 (EEPROM_read (EERef a))
           (((\<lambda>t. snd (EERef_uint8 (EEPROM_read (EERef a)) t)) ^^ k) s)) = cells s a"
    by (simp add: read_value_eq [of a "(_ ^^ k) s"] cells_after_reads)
qed

theorem write_then_read_witness:
  "(10 :: int16) < EEPROM_length 511
   \<and> fst (EERef_uint8 (EEPROM_read (EERef 10)) (EEPROM_write (EERef 10) 170 erased)) = 170
   \<and> fst (EERef_uint8 (EEPROM_read (EERef 10))
           (((\<lambda>t. snd (EERef_uint8 (EEPROM_read (EERef 10)) t)) ^^ 3) erased)) = 255"
proof -
  have h: "(10 :: int16) < EEPROM_length 511"
    by (simp add: EEPROM_length_def)
  show ?thesis
    using h write_then_read [OF h, of 170 erased 3]
    by (simp add: erased_def)
qed

text \<open>
  Claim C1.  \<open>update(a, v)\<close> followed by a read of \<open>a\<close> yields \<open>v\<close>.  If the cell
  already reads \<open>v\<close>, \<open>update(a, v)\<close> adds no \<open>WriteByte\<close> to the trace and changes
  no cell, whereas \<open>write(a, v)\<close> always adds exactly one \<open>WriteByte\<close>.
\<close>

theorem update_conditional_write:
  "fst (EERef_uint8 (EEPROM_read (EERef a)) (EEPROM_update (EERef a) v s)) = v
   \<and> (fst (EERef_uint8 (EEPROM_read (EERef a)) s) = v \<longrightarrow>
        write_count (EEPROM_update (EERef a) v s) = write_count s
        \<and> writes (EEPROM_update (EERef a) v s) = writes s
        \<and> cells (EEPROM_update (EERef a) v s) = cells s)
   \<and> writes (EEPROM_write (EERef a) v s) = writes s @ [WriteByte a v]
   \<and> write_count (EEPROM_write (EERef a) v s) = write_count s + 1"
  by (simp add: read_value_eq EEPROM_update_eq EEPROM_write_eq read_then_write_def
      write_count_def writes_def)

theorem update_conditional_write_witness:
  "fst (EERef_uint8 (EEPROM_read (EERef 10)) erased) = 255
   \<and> write_count (EEPROM_update (EERef 10) 255 erased) = 0
   \<and> write_count (EEPROM_write (EERef 10) 255 erased) = 1"
  using update_conditional_write [of 10 255 erased]
  by (simp add: read_value_eq erased_def write_count_def writes_def)

text \<open>
  Claim C5.  Each compound assignment \<open>+= -= *= /= ^= %= &= |= <<= >>=\<close> with operand
  \<open>n\<close> returns the reference itself and leaves the state of \<open>read_then_write\<close>: one
  read of the cell, then one write of \<open>read() op n\<close> (as a byte) to it, which is the
  state after \<open>operator=( uint8_t )\<close> run on the state after \<open>operator*\<close>.  \<open>/=\<close> and
  \<open>%=\<close> have a value for \<open>n \<noteq> 0\<close>; for every \<open>n\<close> they are the write of
  \<open>read() / n\<close>, respectively \<open>read() % n\<close>, where that \<open>int\<close> expression is defined and
  are undefined where it is not.  The write is issued without a comparison: writing the
  byte already stored still counts one more physical write.
\<close>

theorem compound_assignment:
  "EERef_add_assign r n s = (r, read_then_write (ref_index r) (cells s (ref_index r) + n) s)
   \<and> EERef_sub_assign r n s = (r, read_then_write (ref_index r) (cells s (ref_index r) - n) s)
   \<and> EERef_mul_assign r n s = (r, read_then_write (ref_index r) (cells s (ref_index r) * n) s)
   \<and> (n \<noteq> 0 \<longrightarrow> EERef_div_assign r n s =
         Inr (r, read_then_write (ref_index r) (cells s (ref_index r) div n) s))
   \<and> EERef_xor_assign r n s = (r, read_then_write (ref_index r) (cells s (ref_index r) XOR n) s)
   \<and> (n \<noteq> 0 \<longrightarrow> EERef_mod_assign r n s =
         Inr (r, read_then_write (ref_index r) (cells s (ref_index r) mod n) s))
   \<and> EERef_and_assign r n s = (r, read_then_write (ref_index r) (cells s (ref_index r) AND n) s)
   \<and> EERef_or_assign r n s = (r, read_then_write (ref_index r) (cells s (ref_index r) OR n) s)
   \<and> EERef_shl_assign r n s =
       (r, read_then_write (ref_index r) (push_bit (unat n) (cells s (ref_index r))) s)
   \<and> EERef_shr_assign r n s =
       (r, read_then_write (ref_index r) (drop_bit (unat n) (cells s (ref_index r))) s)
   \<and> EERef_div_assign r n s =
       (case int_div (promote (cells s (ref_index r))) (promote n) of
          Inl e \<Rightarrow> Inl e
        | Inr q \<Rightarrow> Inr (r, read_then_write (ref_index r) (narrow q) s))
   \<and> EERef_mod_assign r n s =
       (case int_mod (promote (cells s (ref_index r))) (promote n) of
          Inl e \<Rightarrow> Inl e
        | Inr q \<Rightarrow> Inr (r, read_then_write (ref_index r) (narrow q) s))
   \<and> read_then_write (ref_index r) v s = snd (EERef_assign r v (snd (EERef_deref r s)))
   \<and> trace (read_then_write (ref_index r) v s)
       = trace s @ [ReadByte (ref_index r), WriteByte (ref_index r) v]
   \<and> write_count (read_then_write (ref_index r) (cells s (ref_index r)) s) = write_count s + 1"
proof (intro conjI impI)
  show "EERef_div_assign r n s =
       (case int_div (promote (cells s (ref_index r))) (promote n) of
          Inl e \<Rightarrow> Inl e
        | Inr q \<Rightarrow> Inr (r, read_then_write (ref_index r) (narrow q) s))"
    by (simp add: EERef_div_assign_def EERef_deref_eq EERef_assign_eq read_then_write_def
        split: sum.split)
  show "EERef_mod_assign r n s =
       (case int_mod (promote (cells s (ref_index r))) (promote n) of
          Inl e \<Rightarrow> Inl e
        | Inr q \<Rightarrow> Inr (r, read_then_write (ref_index r) (narrow q) s))"
    by (simp add: EERef_mod_assign_def EERef_deref_eq EERef_assign_eq read_then_write_def
        split: sum.split)
  show "EERef_add_assign r n s = (r, read_then_write (ref_index r) (cells s (ref_index r) + n) s)"
    by (rule EERef_add_assign_eq)
  show "EERef_sub_assign r n s = (r, read_then_write (ref_index r) (cells s (ref_index r) - n) s)"
    by (rule EERef_sub_assign_eq)
  show "EERef_mul_assign r n s = (r, read_then_write (ref_index r) (cells s (ref_index r) * n) s)"
    by (rule EERef_mul_assign_eq)
  show "EERef_div_assign r n s =
      Inr (r, read_then_write (ref_index r) (cells s (ref_index r) div n) s)" if "n \<noteq> 0"
    using that by (rule EERef_div_assign_eq)
  show "EERef_xor_assign r n s = (r, read_then_write (ref_index r) (cells s (ref_index r) XOR n) s)"
    by (rule EERef_xor_assign_eq)
  show "EERef_mod_assign r n s =
      Inr (r, read_then_write (ref_index r) (cells s (ref_index r) mod n) s)" if "n \<noteq> 0"
    using that by (rule EERef_mod_assign_eq)
  show "EERef_and_assign r n s = (r, read_then_write (ref_index r) (cells s (ref_index r) AND n) s)"
    by (rule EERef_and_assign_eq)
  show "EERef_or_assign r n s = (r, read_then_write (ref_index r) (cells s (ref_index r) OR n) s)"
    by (rule EERef_or_assign_eq)
  show "EERef_shl_assign r n s =
       (r, read_then_write (ref_index r) (push_bit (unat n) (cells s (ref_index r))) s)"
    by (rule EERef_shl_assign_eq)
  show "EERef_shr_assign r n s =
       (r, read_then_write (ref_index r) (drop_bit (unat n) (cells s (ref_index r))) s)"
    by (rule EERef_shr_assign_eq)
  show "read_then_write (ref_index r) v s = snd (EERef_assign r v (snd (EERef_deref r s)))"
    by (simp add: read_then_write_eq)
  show "trace (read_then_write (ref_index r) v s)
       = trace s @ [ReadByte (ref_index r), WriteByte (ref_index r) v]"
    by (simp add: read_then_write_def)
  show "write_count (read_then_write (ref_index r) (cells s (ref_index r)) s) = write_count s + 1"
    by (simp add: write_count_read_then_write)
qed

theorem compound_assignment_witness:
  "(3 :: uint8) \<noteq> 0
   \<and> EERef_div_assign (EERef 10) 3 erased = Inr (EERef 10, read_then_write 10 85 erased)
   \<and> EERef_mod_assign (EERef 10) 3 erased = Inr (EERef 10, read_then_write 10 0 erased)
   \<and> EERef_shr_assign (EERef 10) 3 erased = (EERef 10, read_then_write 10 31 erased)"
  using compound_assignment [of "EERef 10" 3 erased 255]
  by (simp add: erased_def)

text \<open>
  Claim C10.  \<open>/=\<close> and \<open>%=\<close> divide without a guard.  For \<open>n \<noteq> 0\<close> the cell
  receives the unsigned quotient, respectively remainder, of the stored byte by \<open>n\<close>, and
  the division of the promoted operands never takes the branch \<open>DivisionByZero\<close>.  For
  \<open>n = 0\<close> nothing in the source intercepts the division: the operation is the
  undefined behaviour \<open>DivisionByZero\<close>, not a result and not a reported error.
\<close>

theorem division_unguarded:
  "(n \<noteq> 0 \<longrightarrow>
      EERef_div_assign r n s =
        Inr (r, read_then_write (ref_index r) (cells s (ref_index r) div n) s)
      \<and> EERef_mod_assign r n s =
        Inr (r, read_then_write (ref_index r) (cells s (ref_index r) mod n) s)
      \<and> unat (cells s (ref_index r) div n) = unat (cells s (ref_index r)) div unat n
      \<and> unat (cells s (ref_index r) mod n) = unat (cells s (ref_index r)) mod unat n
      \<and> int_div (promote x) (promote n) \<noteq> Inl DivisionByZero
      \<and> int_mod (promote x) (promote n) \<noteq> Inl DivisionByZero)
   \<and> EERef_div_assign r 0 s = Inl DivisionByZero
   \<and> EERef_mod_assign r 0 s = Inl DivisionByZero"
proof (intro conjI impI)
  show "EERef_div_assign r 0 s = Inl DivisionByZero"
    by (simp add: EERef_div_assign_def EERef_deref_eq int_div_def promote_eq_0)
  show "EERef_mod_assign r 0 s = Inl DivisionByZero"
    by (simp add: EERef_mod_assign_def EERef_deref_eq int_mod_def promote_eq_0)
next
  assume "n \<noteq> 0"
  then show "EERef_div_assign r n s =
        Inr (r, read_then_write (ref_index r) (cells s (ref_index r) div n) s)"
    by (rule EERef_div_assign_eq)
  from \<open>n \<noteq> 0\<close> show "EERef_mod_assign r n s =
        Inr (r, read_then_write (ref_index r) (cells s (ref_index r) mod n) s)"
    by (rule EERef_mod_assign_eq)
  show "unat (cells s (ref_index r) div n) = unat (cells s (ref_index r)) div unat n"
    by (rule unat_div)
  show "unat (cells s (ref_index r) mod n) = unat (cells s (ref_index r)) mod unat n"
    by (rule unat_mod)
  from \<open>n \<noteq> 0\<close> show "int_div (promote x) (promote n) \<noteq> Inl DivisionByZero"
    by (simp add: int_div_promote)
  from \<open>n \<noteq> 0\<close> show "int_mod (promote x) (promote n) \<noteq> Inl DivisionByZero"
    by (simp add: int_mod_promote)
qed

theorem division_unguarded_witness:
  "(7 :: uint8) \<noteq> 0
   \<and> EERef_div_assign (EERef 2) 7 erased = Inr (EERef 2, read_then_write 2 36 erased)
   \<and> EERef_mod_assign (EERef 2) 7 erased = Inr (EERef 2, read_then_write 2 3 erased)
   \<and> int_div (promote 255) (promote 7) \<noteq> Inl DivisionByZero"
  using division_unguarded [of 7 "EERef 2" erased 255]
  by (simp add: erased_def)

text \<open>
  Claim C8.  Postfix \<open>++\<close> returns the byte stored before the operation and leaves the
  cell holding that byte plus one modulo 256.  A cell initialised to 5 gives 5 and reads
  6 afterwards.  Postfix \<open>--\<close> returns the byte stored before and leaves the cell
  decremented modulo 256.
\<close>

theorem postfix_increment:
  "fst (EERef_post_inc r s) = cells s (ref_index r)
   \<and> cells (snd (EERef_post_inc r s)) = (cells s)(ref_index r := cells s (ref_index r) + 1)
   \<and> unat (cells (snd (EERef_post_inc r s)) (ref_index r))
       = (unat (cells s (ref_index r)) + 1) mod 256
   \<and> fst (EERef_post_inc (EERef a) (EEPROM_write (EERef a) 5 s)) = 5
   \<and> fst (EERef_uint8 (EERef a) (snd (EERef_post_inc (EERef a) (EEPROM_write (EERef a) 5 s)))) = 6
   \<and> fst (EERef_post_dec r s) = cells s (ref_index r)
   \<and> cells (snd (EERef_post_dec r s)) = (cells s)(ref_index r := cells s (ref_index r) - 1)
   \<and> unat (cells (snd (EERef_post_dec r s)) (ref_index r))
       = (unat (cells s (ref_index r)) + 255) mod 256"
proof (intro conjI)
  show "fst (EERef_post_inc r s) = cells s (ref_index r)"
    by (simp add: EERef_post_inc_eq)
  show "cells (snd (EERef_post_inc r s)) = (cells s)(ref_index r := cells s (ref_index r) + 1)"
    by (simp add: EERef_post_inc_eq)
  show "unat (cells (snd (EERef_post_inc r s)) (ref_index r))
       = (unat (cells s (ref_index r)) + 1) mod 256"
    by (simp add: EERef_post_inc_eq unat_word_ariths)
  show "fst (EERef_post_inc (EERef a) (EEPROM_write (EERef a) 5 s)) = 5"
    by (simp add: EERef_post_inc_eq EEPROM_write_def EERef_assign_eq)
  show "fst (EERef_uint8 (EERef a) (snd (EERef_post_inc (EERef a) (EEPROM_write (EERef a) 5 s)))) = 6"
    by (simp add: EERef_post_inc_eq EEPROM_write_def EERef_assign_eq EERef_uint8_def EERef_deref_eq)
  show "fst (EERef_post_dec r s) = cells s (ref_index r)"
    by (simp add: EERef_post_dec_eq)
  show "cells (snd (EERef_post_dec r s)) = (cells s)(ref_index r := cells s (ref_index r) - 1)"
    by (simp add: EERef_post_dec_eq)
  show "unat (cells (snd (EERef_post_dec r s)) (ref_index r))
       = (unat (cells s (ref_index r)) + 255) mod 256"
    by (simp add: EERef_post_dec_eq unat_dec_uint8)
qed

text \<open>
  Claim C9.  \<open>c1 = c2\<close> on two cell references copies the byte: the reference returned
  still has the index of \<open>c1\<close>, the cell of \<open>c1\<close> holds the byte that was stored in the
  cell of \<open>c2\<close>, the cell of \<open>c2\<close> holds what it held, and the accesses are one read
  of \<open>c2\<close>'s cell followed by one write to \<open>c1\<close>'s cell.
\<close>

theorem copy_assignment:
  "ref_index (fst (EERef_assign_ref c1 c2 s)) = ref_index c1
   \<and> cells (snd (EERef_assign_ref c1 c2 s)) (ref_index c1) = cells s (ref_index c2)
   \<and> cells (snd (EERef_assign_ref c1 c2 s)) (ref_index c2) = cells s (ref_index c2)
   \<and> trace (snd (EERef_assign_ref c1 c2 s))
       = trace s @ [ReadByte (ref_index c2), WriteByte (ref_index c1) (cells s (ref_index c2))]
   \<and> cells (snd (EERef_assign_ref c1 c2 s))
       = (cells s)(ref_index c1 := cells s (ref_index c2))"
  by (simp add: EERef_assign_ref_def EERef_deref_eq EERef_assign_eq)

section \<open>Bit access\<close>

text \<open>
  Claim C4.  For every address \<open>a\<close>, every bit index \<open>i\<close> from 0 to 7 and every
  boolean \<open>b\<close>: after \<open>writeBit(a, i, b)\<close> the bit view \<open>readBit(a, i)\<close> converts to
  \<open>b\<close>, and every other bit of the byte at \<open>a\<close> is what it was before.  \<open>readBit(a, i)\<close>
  converts to true iff \<open>read(a) & (1 << i)\<close> is not zero, which is bit \<open>i\<close> of the
  stored byte.
\<close>

theorem bit_write:
  assumes "unat i < 8"
  shows "fst (EEBit_bool (EEPROM_readBit (EERef a) i) (EEPROM_writeBit (EERef a) i b s)) = b
    \<and> (\<forall>j. j \<noteq> unat i \<longrightarrow>
          bit (cells (EEPROM_writeBit (EERef a) i b s) a) j = bit (cells s a) j)
    \<and> fst (EEBit_bool (EEPROM_readBit (EERef a) i) s) = (cells s a AND push_bit (unat i) 1 \<noteq> 0)
    \<and> fst (EEBit_bool (EEPROM_readBit (EERef a) i) s) = bit (cells s a) (unat i)"
proof (intro conjI allI impI)
  show "fst (EEBit_bool (EEPROM_readBit (EERef a) i) (EEPROM_writeBit (EERef a) i b s)) = b"
    using assms
    by (simp add: EEPROM_readBit_eq EEBit_bool_eq EEPROM_writeBit_eq read_then_write_def
        clear_then_test set_then_test)
  show "bit (cells (EEPROM_writeBit (EERef a) i b s) a) j = bit (cells s a) j" if "j \<noteq> unat i" for j
    using that
    by (auto simp add: EEPROM_writeBit_eq read_then_write_def bit_simps dest: bit_imp_le_length)
  show "fst (EEBit_bool (EEPROM_readBit (EERef a) i) s) = (cells s a AND push_bit (unat i) 1 \<noteq> 0)"
    by (simp add: EEPROM_readBit_eq EEBit_bool_eq)
  show "fst (EEBit_bool (EEPROM_readBit (EERef a) i) s) = bit (cells s a) (unat i)"
    by (simp add: EEPROM_readBit_eq EEBit_bool_eq and_bit_mask_eq_0)
qed

theorem bit_write_witness:
  "unat (3 :: uint8) < 8
   \<and> fst (EEBit_bool (EEPROM_readBit (EERef 10) 3) (EEPROM_writeBit (EERef 10) 3 False erased)) = False
   \<and> bit (cells (EEPROM_writeBit (EERef 10) 3 False erased) 10) 7 = bit (cells erased 10) 7
   \<and> fst (EEBit_bool (EEPROM_readBit (EERef 10) 3) erased) = True"
proof -
  have h: "unat (3 :: uint8) < 8"
    by simp
  have "(7 :: nat) \<noteq> unat (3 :: uint8)"
    by simp
  with h bit_write [OF h, of 10 False erased] show ?thesis
    by (simp add: erased_def)
qed

section \<open>Pointers and the range of the device\<close>

text \<open>
  Claim C6.  The cells of the device are those at the addresses \<open>0 .. E2END\<close>, so its
  capacity is \<open>E2END + 1\<close>; \<open>length()\<close> returns it as \<open>uint16_t\<close>, which holds it
  when \<open>E2END\<close> is not \<open>0xFFFF\<close>.  Then \<open>begin()\<close> is the pointer at address 0 and
  \<open>end()\<close> the pointer at address \<open>E2END + 1\<close>, the capacity.  Incrementing a pointer
  from \<open>begin()\<close> while it is unequal to \<open>end()\<close> visits the cells at the addresses
  \<open>0, 1, .., E2END\<close> in this order: \<open>E2END + 1\<close> cells, no cell twice, every cell of
  the device and no other; \<open>k\<close> increments of \<open>begin()\<close> give the pointer at address
  \<open>k\<close>, and \<open>E2END + 1\<close> of them give \<open>end()\<close>.  For all addresses \<open>a\<close>, \<open>b\<close> and
  every offset \<open>d\<close>: \<open>EEPtr(a) + d\<close> is the address of \<open>EEPtr(a + d)\<close>, in particular
  \<open>EEPtr(0) + 3\<close> that of \<open>EEPtr(3)\<close>; \<open>EEPtr(a) += d\<close> is the pointer \<open>EEPtr(a + d)\<close>
  and \<open>EEPtr(a)[d]\<close> the cell at \<open>a + d\<close>; two pointers compare unequal iff their
  addresses differ.
\<close>

theorem range_iteration:
  assumes "E2END \<noteq> 65535"
  shows "EEPROM_begin = EEPtr 0
    \<and> EEPROM_end E2END = EEPtr (E2END + 1)
    \<and> unat (EEPROM_length E2END) = unat E2END + 1
    \<and> range_for EEPROM_begin (EEPROM_end E2END)
        = map (\<lambda>k. EERef (of_nat k)) [0..<unat E2END + 1]
    \<and> length (range_for EEPROM_begin (EEPROM_end E2END)) = unat E2END + 1
    \<and> distinct (range_for EEPROM_begin (EEPROM_end E2END))
    \<and> set (range_for EEPROM_begin (EEPROM_end E2END)) = {r. ref_index r \<le> E2END}
    \<and> (EEPtr_pre_inc ^^ k) EEPROM_begin = EEPtr (of_nat k)
    \<and> (EEPtr_pre_inc ^^ (unat E2END + 1)) EEPROM_begin = EEPROM_end E2END
    \<and> EEPtr_int (EEPtr a) = a
    \<and> EEPtr_int (EEPtr a) + d = EEPtr_int (EEPtr (a + d))
    \<and> EEPtr_int (EEPtr 0) + 3 = EEPtr_int (EEPtr 3)
    \<and> EEPtr_add_assign (EEPtr a) d = EEPtr (a + d)
    \<and> EEPtr_at (EEPtr a) d = EERef (a + d)
    \<and> EEPtr_neq (EEPtr a) (EEPtr b) = (a \<noteq> b)
    \<and> EEPtr_neq p q = (p \<noteq> q)"
proof -
  let ?N = "unat E2END + 1"
  have len: "unat (EEPROM_length E2END) = ?N"
    unfolding unat_EEPROM_length [OF assms] by simp
  have "unat (EEPROM_length E2END - 0) = ?N"
    using len by simp
  then have "range_for (EEPtr 0) (EEPtr (EEPROM_length E2END))
       = map (\<lambda>k. EERef (0 + of_nat k)) [0..<?N]"
    by (rule range_for_steps)
  then have r: "range_for EEPROM_begin (EEPROM_end E2END)
       = map (\<lambda>k. EERef (of_nat k)) [0..<?N]"
    by (simp only: EEPROM_begin_def EEPROM_end_def add_0_left)
  have "?N \<le> 65536"
    using unat_int16_le [of "EEPROM_length E2END"] by (simp only: len)
  then have "distinct (map (\<lambda>k. 0 + (of_nat k :: int16)) [0..<?N])"
    by (rule distinct_addresses)
  then have "distinct (map (\<lambda>k. of_nat k :: int16) [0..<?N])"
    by (simp only: add_0_left)
  then have "distinct (map EERef (map (\<lambda>k. of_nat k :: int16) [0..<?N]))"
    by (rule distinct_map_EERef)
  then have d: "distinct (range_for EEPROM_begin (EEPROM_end E2END))"
    by (simp only: r map_map o_def)
  have "set (map EERef (map (\<lambda>k. of_nat k :: int16) [0..<Suc (unat E2END)]))
      = EERef ` {a. a \<le> E2END}"
    by (simp only: set_map [of EERef] set_addresses_upto)
  then have v: "set (range_for EEPROM_begin (EEPROM_end E2END)) = {r. ref_index r \<le> E2END}"
    by (simp only: r map_map o_def image_EERef_le Suc_eq_plus1)
  have steps: "(EEPtr_pre_inc ^^ j) EEPROM_begin = EEPtr (of_nat j)" for j
    by (simp only: EEPROM_begin_def EEPtr_pre_inc_funpow add_0_left)
  have "(of_nat ?N :: int16) = E2END + 1"
    by simp
  then have e: "(EEPtr_pre_inc ^^ ?N) EEPROM_begin = EEPROM_end E2END"
    by (simp only: steps EEPROM_end_def EEPROM_length_def)
  show ?thesis
  proof (intro conjI)
    show "EEPROM_begin = EEPtr 0"
      by (rule EEPROM_begin_def)
    show "EEPROM_end E2END = EEPtr (E2END + 1)"
      by (simp only: EEPROM_end_def EEPROM_length_def)
    show "unat (EEPROM_length E2END) = ?N"
      by (rule len)
    show "range_for EEPROM_begin (EEPROM_end E2END)
        = map (\<lambda>k. EERef (of_nat k)) [0..<?N]"
      by (rule r)
    show "length (range_for EEPROM_begin (EEPROM_end E2END)) = ?N"
      by (simp only: r length_map length_upt diff_zero)
    show "distinct (range_for EEPROM_begin (EEPROM_end E2END))"
      by (rule d)
    show "set (range_for EEPROM_begin (EEPROM_end E2END)) = {r. ref_index r \<le> E2END}"
      by (rule v)
    show "(EEPtr_pre_inc ^^ k) EEPROM_begin = EEPtr (of_nat k)"
      by (rule steps)
    show "(EEPtr_pre_inc ^^ ?N) EEPROM_begin = EEPROM_end E2END"
      by (rule e)
    show "EEPtr_int (EEPtr a) = a"
      by (simp add: EEPtr_int_def)
    show "EEPtr_int (EEPtr a) + d = EEPtr_int (EEPtr (a + d))"
      by (simp add: EEPtr_int_def)
    show "EEPtr_int (EEPtr 0) + 3 = EEPtr_int (EEPtr 3)"
      by (simp add: EEPtr_int_def)
    show "EEPtr_add_assign (EEPtr a) d = EEPtr (a + d)"
      by (simp add: EEPtr_add_assign_def)
    show "EEPtr_at (EEPtr a) d = EERef (a + d)"
      by (simp add: EEPtr_at_def)
    show "EEPtr_neq (EEPtr a) (EEPtr b) = (a \<noteq> b)"
      by (simp add: EEPtr_neq_def)
    show "EEPtr_neq p q = (p \<noteq> q)"
      by (cases p; cases q) (simp add: EEPtr_neq_def)
  qed
qed

theorem range_iteration_witness:
  "(511 :: int16) \<noteq> 65535
   \<and> EEPROM_end 511 = EEPtr 512
   \<and> length (range_for EEPROM_begin (EEPROM_end 511)) = 512
   \<and> set (range_for EEPROM_begin (EEPROM_end 511)) = {r. ref_index r \<le> 511}
   \<and> (EEPtr_pre_inc ^^ 512) EEPROM_begin = EEPROM_end 511"
proof -
  have h: "(511 :: int16) \<noteq> 65535"
    by simp
  have u: "unat (511 :: int16) + 1 = 512"
    by simp
  have e: "(511 :: int16) + 1 = 512"
    by simp
  note t = range_iteration [OF h, of 0 0 0 0 EEPROM_begin EEPROM_begin, unfolded u e]
  from t h show ?thesis
    by (elim conjE) (intro conjI; assumption)
qed

section \<open>Objects\<close>

text \<open>
  Claim C2.  For every object representation \<open>x\<close> of a type \<open>T\<close> (\<open>sizeof(T)\<close> is a
  16-bit \<open>size_t\<close>, so \<open>x\<close> has fewer than 65536 bytes), every destination \<open>y\<close> of the
  same type and every pointer: after \<open>put(ptr, x)\<close>, \<open>get(ptr, y)\<close> leaves \<open>y\<close> bytewise
  equal to \<open>x\<close>, and \<open>put\<close> returns \<open>x\<close>.  \<open>get\<close> fills byte \<open>k\<close> of the destination
  with the cell at address \<open>ptr + k\<close>, reads the cells in ascending order of address, one
  read for each byte, and changes no cell.
\<close>

theorem put_get_roundtrip:
  assumes "length x < 65536" and "length y = length x"
  shows "fst (EEPROM_get (EEPtr p) y (snd (EEPROM_put (EEPtr p) x s))) = x
    \<and> fst (EEPROM_put (EEPtr p) x s) = x
    \<and> fst (EEPROM_get (EEPtr p) y s) = map (\<lambda>k. cells s (p + of_nat k)) [0..<length y]
    \<and> trace (snd (EEPROM_get (EEPtr p) y s))
        = trace s @ map (\<lambda>k. ReadByte (p + of_nat k)) [0..<length y]
    \<and> cells (snd (EEPROM_get (EEPtr p) y s)) = cells s"
proof -
  have y: "length y < 65536"
    using assms by simp
  have get: "EEPROM_get (EEPtr p) y s' =
      (stored s' p (length y),
       s'\<lparr>trace := trace s' @ map (\<lambda>k. ReadByte (p + of_nat k)) [0..<length y]\<rparr>)" for s'
    unfolding EEPROM_get_def using y by (subst get_loop_eq) simp_all
  have "stored (put_loop (of_nat (length x)) (EEPtr p) x 0 s) p (length x)
      = map (\<lambda>k. x ! (0 + k)) [0..<length x]"
    using assms(1) by (rule stored_put_loop)
  then have put: "stored (snd (EEPROM_put (EEPtr p) x s)) p (length y) = x"
    by (simp add: EEPROM_put_def assms(2) map_nth)
  show ?thesis
  proof (intro conjI)
    show "fst (EEPROM_get (EEPtr p) y (snd (EEPROM_put (EEPtr p) x s))) = x"
      unfolding get by (simp add: put)
    show "fst (EEPROM_put (EEPtr p) x s) = x"
      by (simp add: EEPROM_put_def)
    show "fst (EEPROM_get (EEPtr p) y s) = map (\<lambda>k. cells s (p + of_nat k)) [0..<length y]"
      unfolding get by (simp add: stored_def)
    show "trace (snd (EEPROM_get (EEPtr p) y s))
        = trace s @ map (\<lambda>k. ReadByte (p + of_nat k)) [0..<length y]"
      unfolding get by simp
    show "cells (snd (EEPROM_get (EEPtr p) y s)) = cells s"
      unfolding get by simp
  qed
qed

theorem put_get_roundtrip_witness:
  "length [1, 2, 3 :: uint8] < 65536 \<and> length [0, 0, 0 :: uint8] = length [1, 2, 3 :: uint8]
   \<and> fst (EEPROM_get (EEPtr 10) [0, 0, 0] (snd (EEPROM_put (EEPtr 10) [1, 2, 3] erased)))
       = [1, 2, 3]"
proof -
  have h1: "length [1, 2, 3 :: uint8] < 65536"
    by simp
  have h2: "length [0, 0, 0 :: uint8] = length [1, 2, 3 :: uint8]"
    by simp
  from put_get_roundtrip [OF h1 h2, of 10 erased] h1 h2 show ?thesis
    by (simp only: simp_thms)
qed

text \<open>
  Claim C3.  For every object representation \<open>x\<close> of fewer than 65536 bytes and every
  pointer, the physical writes that \<open>put(ptr, x)\<close> issues are, in ascending order, the
  writes of byte \<open>k\<close> of \<open>x\<close> to the cell at \<open>ptr + k\<close> for exactly those positions
  \<open>k\<close> where the cell held another byte before; no other cell is written.  If the cells
  already hold the bytes of \<open>x\<close>, \<open>put\<close> issues no physical write and changes no cell.
\<close>

theorem put_write_minimization:
  assumes "length x < 65536"
  shows "writes (snd (EEPROM_put (EEPtr p) x s)) =
      writes s @ map (\<lambda>k. WriteByte (p + of_nat k) (x ! k))
        (filter (\<lambda>k. cells s (p + of_nat k) \<noteq> x ! k) [0..<length x])
    \<and> write_count (snd (EEPROM_put (EEPtr p) x s)) =
      write_count s + length (filter (\<lambda>k. cells s (p + of_nat k) \<noteq> x ! k) [0..<length x])
    \<and> (stored s p (length x) = x \<longrightarrow>
         write_count (snd (EEPROM_put (EEPtr p) x s)) = write_count s
         \<and> writes (snd (EEPROM_put (EEPtr p) x s)) = writes s
         \<and> cells (snd (EEPROM_put (EEPtr p) x s)) = cells s)"
proof -
  have w: "writes (snd (EEPROM_put (EEPtr p) x s)) =
      writes s @ map (\<lambda>k. WriteByte (p + of_nat k) (x ! k))
        (filter (\<lambda>k. cells s (p + of_nat k) \<noteq> x ! k) [0..<length x])"
    using put_loop_writes [OF assms, of p x 0 s] by (simp add: EEPROM_put_def)
  have same: "filter (\<lambda>k. cells s (p + of_nat k) \<noteq> x ! k) [0..<length x] = []"
    if "stored s p (length x) = x"
  proof -
    have "cells s (p + of_nat k) = x ! k" if "k < length x" for k
    proof -
      have "stored s p (length x) ! k = cells s (p + of_nat k)"
        using that by (simp add: stored_def)
      then show ?thesis
        using \<open>stored s p (length x) = x\<close> by simp
    qed
    then show ?thesis
      by (simp add: filter_empty_conv)
  qed
  have c: "cells (snd (EEPROM_put (EEPtr p) x s)) = cells s" if "stored s p (length x) = x"
  proof -
    from that have "stored s p (length x) = map (\<lambda>k. x ! (0 + k)) [0..<length x]"
      by (simp add: map_nth)
    with assms have "cells (put_loop (of_nat (length x)) (EEPtr p) x 0 s) = cells s"
      by (rule put_loop_cells_same)
    then show ?thesis
      by (simp add: EEPROM_put_def)
  qed
  show ?thesis
  proof (intro conjI impI)
    show "writes (snd (EEPROM_put (EEPtr p) x s)) =
      writes s @ map (\<lambda>k. WriteByte (p + of_nat k) (x ! k))
        (filter (\<lambda>k. cells s (p + of_nat k) \<noteq> x ! k) [0..<length x])"
      by (rule w)
    show "write_count (snd (EEPROM_put (EEPtr p) x s)) =
      write_count s + length (filter (\<lambda>k. cells s (p + of_nat k) \<noteq> x ! k) [0..<length x])"
      unfolding write_count_def w by simp
    show "write_count (snd (EEPROM_put (EEPtr p) x s)) = write_count s"
      if "stored s p (length x) = x"
      unfolding write_count_def w same [OF that] by simp
    show "writes (snd (EEPROM_put (EEPtr p) x s)) = writes s"
      if "stored s p (length x) = x"
      unfolding w same [OF that] by simp
    show "cells (snd (EEPROM_put (EEPtr p) x s)) = cells s" if "stored s p (length x) = x"
      using that by (rule c)
  qed
qed

theorem put_write_minimization_witness:
  "length [255, 255 :: uint8] < 65536 \<and> stored erased 10 (length [255, 255 :: uint8]) = [255, 255]
   \<and> write_count (snd (EEPROM_put (EEPtr 10) [255, 255] erased)) = write_count erased"
proof -
  have h1: "length [255, 255 :: uint8] < 65536"
    by simp
  have h2: "stored erased 10 (length [255, 255 :: uint8]) = [255, 255]"
    by (simp add: stored_def erased_def)
  from put_write_minimization [OF h1, of 10 erased] h1 h2 show ?thesis
    by blast
qed

end
